theory Spec2Isabelle
  imports Main
begin

section \<open>MJPEG camera web server (rpi/camera_web/main.py)\<close>

text \<open>
  A shallow embedding of \<^verbatim>\<open>src/rpi/camera_web/main.py\<close>. The program is glue code over
  the Python standard library (\<^verbatim>\<open>http.server\<close>, \<^verbatim>\<open>threading.Condition\<close>, \<^verbatim>\<open>os.path\<close>,
  \<^verbatim>\<open>socket\<close>, \<^verbatim>\<open>argparse\<close>) and the camera library. The embedding keeps every call the
  source makes, in the source's order: a request handler is a function on a handler
  state that records the calls made on the handler (the \<open>trace\<close>), an exception is a
  value, and what the outside world answers (the disk, the camera, the client socket,
  the clock) is an explicit input.
\<close>

subsection \<open>Strings, bytes and exceptions\<close>

text \<open>
  Python \<^verbatim>\<open>bytes\<close> are lists of 8-bit characters. A Python \<^verbatim>\<open>str\<close> that is only compared or
  concatenated (paths, header names, log messages) is a \<open>string\<close> too; the one \<^verbatim>\<open>str\<close> that
  the source encodes to UTF-8, the HTML template, is a list of Unicode code points.
\<close>

type_synonym bytes = string
type_synonym ustr = "nat list"

text \<open>
  The exceptions of the model are the subclasses of Python's \<^verbatim>\<open>Exception\<close> that the
  calls of the source raise; the second component is \<^verbatim>\<open>str(e)\<close>.
\<close>

datatype exn_class =
    FileNotFoundError | PermissionError | OSError
  | BrokenPipeError | ConnectionResetError
  | TypeError | UnicodeEncodeError | RuntimeError

datatype exn = Exn (cls: exn_class) (msg: string)

datatype level = INFO | WARNING | ERROR

definition CRLF :: string where
  "CRLF = [CHR 0x0D, CHR 0x0A]"

definition quote :: string where
  "quote = [CHR 0x27]"

text \<open>\<^verbatim>\<open>"%s" % n\<close> and \<^verbatim>\<open>"%d" % n\<close> for a non-negative integer: its decimal digits.\<close>

definition digit :: "nat \<Rightarrow> char" where
  "digit d = char_of (48 + d)"

fun str_nat :: "nat \<Rightarrow> string" where
  "str_nat n = (if n < 10 then [digit n] else str_nat (n div 10) @ [digit (n mod 10)])"

declare str_nat.simps [simp del]

text \<open>
  \<^verbatim>\<open>str.encode('utf-8')\<close>: one to four bytes per code point; a surrogate code point raises
  \<^verbatim>\<open>UnicodeEncodeError\<close>.
\<close>

definition utf8_char :: "nat \<Rightarrow> exn + bytes" where
  "utf8_char c =
     (if c < 0x80 then Inr [char_of c]
      else if c < 0x800 then Inr [char_of (0xC0 + c div 0x40), char_of (0x80 + c mod 0x40)]
      else if 0xD800 \<le> c \<and> c \<le> 0xDFFF then
        Inl (Exn UnicodeEncodeError ''surrogates not allowed'')
      else if c < 0x10000 then
        Inr [char_of (0xE0 + c div 0x1000), char_of (0x80 + (c div 0x40) mod 0x40),
             char_of (0x80 + c mod 0x40)]
      else
        Inr [char_of (0xF0 + c div 0x40000), char_of (0x80 + (c div 0x1000) mod 0x40),
             char_of (0x80 + (c div 0x40) mod 0x40), char_of (0x80 + c mod 0x40)])"

fun encode_utf8 :: "ustr \<Rightarrow> exn + bytes" where
  "encode_utf8 [] = Inr []"
| "encode_utf8 (c # cs) =
     (case utf8_char c of
        Inl e \<Rightarrow> Inl e
      | Inr b \<Rightarrow> (case encode_utf8 cs of Inl e \<Rightarrow> Inl e | Inr bs \<Rightarrow> Inr (b @ bs)))"

text \<open>A \<^verbatim>\<open>str\<close> literal of the source (ASCII) as code points.\<close>

definition literal :: "string \<Rightarrow> ustr" where
  "literal s = map of_char s"

subsection \<open>Paths (posixpath)\<close>

text \<open>
  \<^verbatim>\<open>os.path.join(a, *p)\<close>: a component that starts with the separator replaces what was
  joined so far; otherwise it is appended, after a separator unless the path is empty or
  already ends with one.
\<close>

definition join_step :: "string \<Rightarrow> string \<Rightarrow> string" where
  "join_step p b =
     (if b \<noteq> [] \<and> hd b = CHR ''/'' then b
      else if p = [] \<or> last p = CHR ''/'' then p @ b
      else p @ ''/'' @ b)"

definition path_join :: "string \<Rightarrow> string list \<Rightarrow> string" where
  "path_join a p = foldl join_step a p"

text \<open>
  \<^verbatim>\<open>os.path.dirname(p)\<close>: the text up to and including the last separator, with trailing
  separators stripped unless it consists of separators only.
\<close>

fun rstrip_sep :: "string \<Rightarrow> string" where
  "rstrip_sep s = rev (dropWhile (\<lambda>c. c = CHR ''/'') (rev s))"

definition dirname :: "string \<Rightarrow> string" where
  "dirname p =
     (let head = rev (dropWhile (\<lambda>c. c \<noteq> CHR ''/'') (rev p))
      in if head \<noteq> [] \<and> head \<noteq> replicate (length head) (CHR ''/'')
         then rstrip_sep head else head)"

subsection \<open>The request handler's state and the calls it makes\<close>

text \<open>
  Every call of the source on the handler, the logger, the file system and the camera
  is one entry of the trace. \<open>Send_header k v\<close> carries the value as \<^verbatim>\<open>"%s"\<close> formats it.
  \<^verbatim>\<open>send_error(code)\<close> writes to the socket twice, and the trace keeps the two writes
  apart: \<open>Send_error code\<close> is the error response's header block, \<open>Error_body code\<close> its
  HTML body.
\<close>

datatype effect =
    Send_response nat
  | Send_header string string
  | End_headers
  | Wfile_write bytes
  | Send_error nat
  | Error_body nat
  | Logging level string
  | Makedirs string
  | Capture_file string

text \<open>
  \<open>path\<close> is \<^verbatim>\<open>self.path\<close>, the request target as the client sent it; \<open>client_address\<close> is
  \<^verbatim>\<open>self.client_address\<close> as it is formatted into a log message. The client socket accepts
  \<open>writes_left\<close> more writes; after that every write raises \<open>fault\<close> (the client has gone).
\<close>

record handler =
  path :: string
  client_address :: string
  trace :: "effect list"
  writes_left :: nat
  fault :: exn

text \<open>
  A statement either completes, raises, or is blocked in \<^verbatim>\<open>output.condition.wait()\<close> at
  the end of what has been observed of the run.
\<close>

datatype status = Done | Raised exn | Waiting

type_synonym action = "handler \<Rightarrow> status \<times> handler"

definition emit :: "effect \<Rightarrow> action" where
  "emit e h = (Done, h\<lparr>trace := trace h @ [e]\<rparr>)"

definition sock :: "effect \<Rightarrow> action" where
  "sock e h =
     (if writes_left h = 0 then (Raised (fault h), h)
      else (Done, h\<lparr>trace := trace h @ [e], writes_left := writes_left h - 1\<rparr>))"

definition raise :: "exn \<Rightarrow> action" where
  "raise e h = (Raised e, h)"

text \<open>Statements in sequence: the first that raises or blocks ends the sequence.\<close>

primrec do_all :: "action list \<Rightarrow> action" where
  "do_all [] h = (Done, h)"
| "do_all (a # as) h =
     (case a h of (Done, h') \<Rightarrow> do_all as h' | (st, h') \<Rightarrow> (st, h'))"

text \<open>
  The handler API of \<^verbatim>\<open>BaseHTTPRequestHandler\<close>: \<^verbatim>\<open>send_response\<close> and \<^verbatim>\<open>send_header\<close> only
  fill the header buffer; \<^verbatim>\<open>end_headers\<close> and \<^verbatim>\<open>wfile.write\<close> each write to the socket once
  and raise when the client has gone. \<^verbatim>\<open>send_error\<close> buffers the status line and the
  headers of the error response, flushes them with its own \<^verbatim>\<open>end_headers()\<close> and then
  writes the body with \<^verbatim>\<open>wfile.write\<close> (the request is a GET and the code is 404, so
  there is a body): two socket writes, either of which may raise.
\<close>

definition send_response :: "nat \<Rightarrow> action" where
  "send_response code = emit (Send_response code)"

definition send_header :: "string \<Rightarrow> string \<Rightarrow> action" where
  "send_header k v = emit (Send_header k v)"

definition end_headers :: action where
  "end_headers = sock End_headers"

definition wfile_write :: "bytes \<Rightarrow> action" where
  "wfile_write b = sock (Wfile_write b)"

definition send_error :: "nat \<Rightarrow> action" where
  "send_error code = do_all [sock (Send_error code), sock (Error_body code)]"

definition logging :: "level \<Rightarrow> string \<Rightarrow> action" where
  "logging l m = emit (Logging l m)"

text \<open>
  \<^verbatim>\<open>os.makedirs(d, exist_ok=True)\<close> and \<^verbatim>\<open>picam2.capture_file(p)\<close>: the call is recorded and
  raises what the file system or the camera answers.
\<close>

definition os_makedirs :: "exn option \<Rightarrow> string \<Rightarrow> action" where
  "os_makedirs r d h =
     ((case r of None \<Rightarrow> Done | Some e \<Rightarrow> Raised e), h\<lparr>trace := trace h @ [Makedirs d]\<rparr>)"

definition capture_file :: "exn option \<Rightarrow> string \<Rightarrow> action" where
  "capture_file r p h =
     ((case r of None \<Rightarrow> Done | Some e \<Rightarrow> Raised e), h\<lparr>trace := trace h @ [Capture_file p]\<rparr>)"

text \<open>\<^verbatim>\<open>try: ... except Exception as e: ...\<close>.\<close>

definition try_except :: "action \<Rightarrow> (exn \<Rightarrow> action) \<Rightarrow> action" where
  "try_except body handle h =
     (case body h of (Raised e, h') \<Rightarrow> handle e h' | (st, h') \<Rightarrow> (st, h'))"

subsection \<open>\<^verbatim>\<open>StreamingHandler.do_GET\<close>\<close>

text \<open>
  What the world answers during one request: the formatted timestamp
  \<^verbatim>\<open>datetime.now().strftime("%Y%m%d_%H%M%S")\<close>, the outcome of creating the snapshot
  directory and of the capture, and the values of \<^verbatim>\<open>output.frame\<close> that the successive
  waits of the streaming loop read.
\<close>

record env =
  timestamp :: string
  makedirs_fault :: "exn option"
  capture_fault :: "exn option"
  waits :: "bytes option list"

text \<open>The module globals \<^verbatim>\<open>do_GET\<close> reads; it assigns to none of them.\<close>

record globals =
  BASE_DIR :: string
  HTML_TEMPLATE :: ustr

text \<open>One pass of the streaming loop's body after the wait returned \<open>frame\<close>.\<close>

definition stream_part :: "bytes option \<Rightarrow> action" where
  "stream_part frame =
     do_all
       [wfile_write (''--FRAME'' @ CRLF),
        send_header ''Content-Type'' ''image/jpeg'',
        (case frame of
           None \<Rightarrow> raise (Exn TypeError (''object of type '' @ quote @ ''NoneType'' @ quote @ '' has no len()''))
         | Some b \<Rightarrow>
             do_all
               [send_header ''Content-Length'' (str_nat (length b)),
                end_headers,
                wfile_write b,
                wfile_write CRLF])]"

text \<open>
  \<^verbatim>\<open>while True\<close>: one pass per value the waits return; when they are used up the thread
  is blocked in the next wait.
\<close>

fun stream_loop :: "bytes option list \<Rightarrow> action" where
  "stream_loop [] h = (Waiting, h)"
| "stream_loop (frame # rest) h =
     (case stream_part frame h of
        (Done, h') \<Rightarrow> stream_loop rest h'
      | (st, h') \<Rightarrow> (st, h'))"

definition stream_except :: "exn \<Rightarrow> action" where
  "stream_except e h =
     (if cls e = BrokenPipeError \<or> cls e = ConnectionResetError then
        logging WARNING
          (''Removed streaming client '' @ client_address h @ '': Client disconnected.'') h
      else
        logging WARNING (''Removed streaming client '' @ client_address h @ '': '' @ msg e) h)"

definition snapshot_path :: "globals \<Rightarrow> env \<Rightarrow> string" where
  "snapshot_path g ev =
     path_join (BASE_DIR g) [''snapshots'', ''snapshot_'' @ timestamp ev @ ''.jpg'']"

definition snapshot_try :: "globals \<Rightarrow> env \<Rightarrow> action" where
  "snapshot_try g ev =
     do_all
       [os_makedirs (makedirs_fault ev) (dirname (snapshot_path g ev)),
        capture_file (capture_fault ev) (snapshot_path g ev),
        send_response 200,
        end_headers,
        wfile_write ''Snapshot saved.'',
        logging INFO (''Snapshot saved to '' @ snapshot_path g ev)]"

definition snapshot_except :: "exn \<Rightarrow> action" where
  "snapshot_except e =
     do_all
       [logging ERROR (''Error capturing snapshot: '' @ msg e),
        send_response 500,
        end_headers,
        wfile_write ''Failed to save snapshot.'']"

definition do_GET :: "globals \<Rightarrow> env \<Rightarrow> action" where
  "do_GET g ev h =
     (if path h = ''/'' then
        do_all [send_response 301, send_header ''Location'' ''/index.html'', end_headers] h
      else if path h = ''/index.html'' then
        (case encode_utf8 (HTML_TEMPLATE g) of
           Inl e \<Rightarrow> raise e h
         | Inr content \<Rightarrow>
             do_all
               [send_response 200,
                send_header ''Content-Type'' ''text/html'',
                send_header ''Content-Length'' (str_nat (length content)),
                end_headers,
                wfile_write content] h)
      else if path h = ''/stream.mjpg'' then
        do_all
          [send_response 200,
           send_header ''Age'' (str_nat 0),
           send_header ''Cache-Control'' ''no-cache, private'',
           send_header ''Pragma'' ''no-cache'',
           send_header ''Content-Type'' ''multipart/x-mixed-replace; boundary=FRAME'',
           end_headers,
           try_except (stream_loop (waits ev)) stream_except] h
      else if path h = ''/snapshot'' then
        try_except (snapshot_try g ev) snapshot_except h
      else
        do_all [send_error 404, end_headers] h)"

subsection \<open>What \<^verbatim>\<open>http.server\<close> puts on the wire\<close>

text \<open>
  The bytes that reach the client for a trace, as \<^verbatim>\<open>BaseHTTPRequestHandler\<close> produces them
  for a request line that carries an HTTP version: \<^verbatim>\<open>send_response\<close> buffers the status
  line and the \<^verbatim>\<open>Server\<close> and \<^verbatim>\<open>Date\<close> headers, \<^verbatim>\<open>send_header\<close> buffers one header line,
  \<^verbatim>\<open>end_headers\<close> buffers the blank line and flushes the buffer, \<^verbatim>\<open>wfile.write\<close> is
  unbuffered, and \<^verbatim>\<open>send_error\<close> flushes the status line and the headers of the error
  response (together with anything still buffered) and then writes its HTML body. The
  server's version string, the date and the error page are the library's own.
\<close>

record httpd =
  version_string :: string
  date_time_string :: string
  error_page :: "nat \<Rightarrow> bytes"

definition reason_phrase :: "nat \<Rightarrow> string" where
  "reason_phrase code =
     (if code = 200 then ''OK''
      else if code = 301 then ''Moved Permanently''
      else if code = 404 then ''Not Found''
      else if code = 500 then ''Internal Server Error''
      else [])"

definition header_line :: "string \<Rightarrow> string \<Rightarrow> bytes" where
  "header_line k v = k @ '': '' @ v @ CRLF"

definition response_head :: "httpd \<Rightarrow> nat \<Rightarrow> bytes" where
  "response_head lib code =
     ''HTTP/1.0 '' @ str_nat code @ '' '' @ reason_phrase code @ CRLF
     @ header_line ''Server'' (version_string lib)
     @ header_line ''Date'' (date_time_string lib)"

fun wire_from :: "httpd \<Rightarrow> bytes \<Rightarrow> effect list \<Rightarrow> bytes" where
  "wire_from lib buf [] = []"
| "wire_from lib buf (Send_response code # es) = wire_from lib (buf @ response_head lib code) es"
| "wire_from lib buf (Send_header k v # es) = wire_from lib (buf @ header_line k v) es"
| "wire_from lib buf (End_headers # es) = buf @ CRLF @ wire_from lib [] es"
| "wire_from lib buf (Wfile_write b # es) = b @ wire_from lib buf es"
| "wire_from lib buf (Send_error code # es) =
     buf @ response_head lib code
     @ header_line ''Connection'' ''close''
     @ header_line ''Content-Type'' ''text/html;charset=utf-8''
     @ header_line ''Content-Length'' (str_nat (length (error_page lib code)))
     @ CRLF @ wire_from lib [] es"
| "wire_from lib buf (Error_body code # es) = error_page lib code @ wire_from lib buf es"
| "wire_from lib buf (Logging l m # es) = wire_from lib buf es"
| "wire_from lib buf (Makedirs d # es) = wire_from lib buf es"
| "wire_from lib buf (Capture_file p # es) = wire_from lib buf es"

definition wire :: "httpd \<Rightarrow> effect list \<Rightarrow> bytes" where
  "wire lib es = wire_from lib [] es"

subsection \<open>\<^verbatim>\<open>load_html_template\<close> and the module's start\<close>

definition fallback_html :: ustr where
  "fallback_html = literal ''<html><body><h1>Error: Template not found.</h1></body></html>''"

text \<open>
  The disk answers \<^verbatim>\<open>open(filepath, 'r', encoding='utf-8').read()\<close> for every path: the
  decoded text, or the exception raised. Only \<^verbatim>\<open>FileNotFoundError\<close> is caught.
\<close>

type_synonym disk = "string \<Rightarrow> exn + ustr"

definition template_path :: "string \<Rightarrow> string \<Rightarrow> string" where
  "template_path base filename = path_join base [''template'', filename]"

definition load_html_template :: "string \<Rightarrow> disk \<Rightarrow> string \<Rightarrow> (exn + ustr) \<times> effect list" where
  "load_html_template base d filename =
     (case d (template_path base filename) of
        Inr text \<Rightarrow> (Inr text, [])
      | Inl e \<Rightarrow>
          if cls e = FileNotFoundError then
            (Inr fallback_html,
             [Logging ERROR
                (''HTML template file '' @ quote @ template_path base filename @ quote
                 @ '' not found.'')])
          else (Inl e, []))"

text \<open>
  The running process: the module globals, bound once when the module is loaded, and the
  disk, which changes under the process. A request is served from the globals.
\<close>

record process =
  py_globals :: globals
  files :: disk

definition module_load :: "string \<Rightarrow> disk \<Rightarrow> exn + process \<times> effect list" where
  "module_load base d =
     (case load_html_template base d ''index.html'' of
        (Inl e, lg) \<Rightarrow> Inl e
      | (Inr text, lg) \<Rightarrow>
          Inr (\<lparr>py_globals = \<lparr>BASE_DIR = base, HTML_TEMPLATE = text\<rparr>, files = d\<rparr>, lg))"

datatype occurrence = Disk_change string "exn + ustr" | Request env handler

fun serve :: "process \<Rightarrow> occurrence list \<Rightarrow> process \<times> (status \<times> handler) list" where
  "serve p [] = (p, [])"
| "serve p (Disk_change f c # os) = serve (p\<lparr>files := (files p)(f := c)\<rparr>) os"
| "serve p (Request ev h # os) =
     (case serve p os of (p', rs) \<Rightarrow> (p', do_GET (py_globals p) ev h # rs))"

text \<open>The requests among the occurrences, in order.\<close>

fun requests :: "occurrence list \<Rightarrow> (env \<times> handler) list" where
  "requests [] = []"
| "requests (Disk_change f c # os) = requests os"
| "requests (Request ev h # os) = (ev, h) # requests os"

subsection \<open>\<^verbatim>\<open>StreamingOutput\<close>: the frame and the condition\<close>

text \<open>
  The object holds \<^verbatim>\<open>self.frame\<close> and \<^verbatim>\<open>self.condition\<close>, nothing else. Of the condition
  the model keeps the threads that are blocked in \<^verbatim>\<open>wait()\<close> and those that
  \<^verbatim>\<open>notify_all()\<close> has woken and that have not yet got the lock back. The lock makes each
  of the three steps below atomic.
\<close>

record StreamingOutput =
  frame :: "bytes option"
  waiting :: "nat set"
  notified :: "nat set"

definition StreamingOutput_init :: StreamingOutput where
  "StreamingOutput_init = \<lparr>frame = None, waiting = {}, notified = {}\<rparr>"

definition output_write :: "bytes \<Rightarrow> StreamingOutput \<Rightarrow> StreamingOutput" where
  "output_write buf out =
     out\<lparr>frame := Some buf, notified := notified out \<union> waiting out, waiting := {}\<rparr>"

text \<open>
  \<open>Write buf\<close> is the encoder thread's \<^verbatim>\<open>output.write(buf)\<close>. A streaming thread \<open>t\<close> runs
  \<^verbatim>\<open>with output.condition: output.condition.wait(); frame = output.frame\<close> in two steps:
  \<open>Wait_begin t\<close> takes the lock and blocks in \<^verbatim>\<open>wait()\<close>, releasing the lock;
  \<open>Wait_end t\<close>, possible once \<open>t\<close> has been notified, takes the lock back, reads
  \<^verbatim>\<open>output.frame\<close> and releases the lock.
\<close>

datatype event = Write bytes | Wait_begin nat | Wait_end nat

fun step :: "StreamingOutput \<Rightarrow> event \<Rightarrow> StreamingOutput option" where
  "step out (Write buf) = Some (output_write buf out)"
| "step out (Wait_begin t) =
     (if t \<in> waiting out \<or> t \<in> notified out then None
      else Some (out\<lparr>waiting := insert t (waiting out)\<rparr>))"
| "step out (Wait_end t) =
     (if t \<in> notified out then Some (out\<lparr>notified := notified out - {t}\<rparr>) else None)"

fun run :: "StreamingOutput \<Rightarrow> event list \<Rightarrow> StreamingOutput option" where
  "run out [] = Some out"
| "run out (e # es) = (case step out e of None \<Rightarrow> None | Some out' \<Rightarrow> run out' es)"

text \<open>
  The values of \<^verbatim>\<open>output.frame\<close> that thread \<open>t\<close> reads, in order. A step that is not
  possible in the state it meets (a thread resuming that nobody has notified) ends the
  run. The list a streaming thread reads is the \<open>waits\<close> of its handler's environment.
\<close>

fun received :: "nat \<Rightarrow> StreamingOutput \<Rightarrow> event list \<Rightarrow> bytes option list" where
  "received t out [] = []"
| "received t out (e # es) =
     (case step out e of
        None \<Rightarrow> []
      | Some out' \<Rightarrow> (if e = Wait_end t then [frame out] else []) @ received t out' es)"

text \<open>The buffers published in a run, in order.\<close>

fun published :: "event list \<Rightarrow> bytes list" where
  "published [] = []"
| "published (Write buf # es) = buf # published es"
| "published (e # es) = published es"

subsection \<open>\<^verbatim>\<open>get_local_ip\<close>\<close>

text \<open>
  The network answers the three calls of the attempt: creating the datagram socket,
  connecting it to a peer, and \<^verbatim>\<open>getsockname()\<close> of the connected socket.
\<close>

record net =
  socket_fault :: "exn option"
  connect_fault :: "string \<times> nat \<Rightarrow> exn option"
  getsockname :: "string \<times> nat \<Rightarrow> exn + string \<times> nat"

definition local_ip_attempt :: "net \<Rightarrow> exn + string" where
  "local_ip_attempt n =
     (case socket_fault n of
        Some e \<Rightarrow> Inl e
      | None \<Rightarrow>
          (case connect_fault n (''8.8.8.8'', 80) of
             Some e \<Rightarrow> Inl e
           | None \<Rightarrow>
               (case getsockname n (''8.8.8.8'', 80) of
                  Inl e \<Rightarrow> Inl e
                | Inr (host, port) \<Rightarrow> Inr host)))"

definition get_local_ip :: "net \<Rightarrow> exn + string" where
  "get_local_ip n =
     (case local_ip_attempt n of Inl e \<Rightarrow> Inr ''127.0.0.1'' | Inr host \<Rightarrow> Inr host)"

subsection \<open>The \<^verbatim>\<open>--flip\<close> flag and the capture transform\<close>

text \<open>
  \<^verbatim>\<open>parser.add_argument("--flip", choices=[...], default="none")\<close>: the flag's value when it
  is given, checked against the choices (argparse exits on any other value), and the
  default when it is omitted.
\<close>

definition flip_choices :: "string list" where
  "flip_choices = [''none'', ''h'', ''v'', ''hv'']"

definition parse_flip :: "string option \<Rightarrow> string option" where
  "parse_flip given =
     (case given of
        None \<Rightarrow> Some ''none''
      | Some v \<Rightarrow> if v \<in> set flip_choices then Some v else None)"

text \<open>Python's \<^verbatim>\<open>needle in haystack\<close> on strings: a substring test.\<close>

fun contains :: "string \<Rightarrow> string \<Rightarrow> bool" where
  "contains needle [] = (needle = [])"
| "contains needle (c # cs) = (take (length needle) (c # cs) = needle \<or> contains needle cs)"

record transform =
  hflip :: bool
  vflip :: bool

definition make_transform :: "string \<Rightarrow> transform" where
  "make_transform flip = \<lparr>hflip = contains ''h'' flip, vflip = contains ''v'' flip\<rparr>"

definition main_transform :: "string option \<Rightarrow> transform option" where
  "main_transform given = map_option make_transform (parse_flip given)"

subsection \<open>Concrete inputs\<close>

definition sample_globals :: globals where
  "sample_globals = \<lparr>BASE_DIR = ''/home/pi/camera_web'', HTML_TEMPLATE = fallback_html\<rparr>"

definition sample_env :: env where
  "sample_env =
     \<lparr>timestamp = ''20240101_120000'', makedirs_fault = None, capture_fault = None, waits = []\<rparr>"

text \<open>A fresh handler for request target \<open>p\<close> whose client stays connected for ten writes.\<close>

definition sample_handler :: "string \<Rightarrow> handler" where
  "sample_handler p =
     \<lparr>path = p, client_address = ''(10.0.0.2, 50000)'', trace = [], writes_left = 10,
      fault = Exn BrokenPipeError ''[Errno 32] Broken pipe''\<rparr>"

definition sample_httpd :: httpd where
  "sample_httpd =
     \<lparr>version_string = ''BaseHTTP/0.6 Python/3.11.2'',
      date_time_string = ''Mon, 01 Jan 2024 12:00:00 GMT'',
      error_page = (\<lambda>code. ''<html>error</html>'')\<rparr>"

definition sample_frames :: "bytes list" where
  "sample_frames = [''JPEG1'', ''0123456789ab'']"

definition camera_busy :: exn where
  "camera_busy = Exn RuntimeError ''Camera is busy''"

text \<open>A disk without any file, and one that holds the template.\<close>

definition no_disk :: disk where
  "no_disk f = Inl (Exn FileNotFoundError ''[Errno 2] No such file or directory'')"

definition sample_disk :: disk where
  "sample_disk f =
     (if f = ''/home/pi/camera_web/template/index.html'' then Inr (literal ''<html>live</html>'')
      else Inl (Exn FileNotFoundError ''[Errno 2] No such file or directory''))"

definition sample_process :: process where
  "sample_process =
     \<lparr>py_globals =
        \<lparr>BASE_DIR = ''/home/pi/camera_web'', HTML_TEMPLATE = literal ''<html>live</html>''\<rparr>,
      files = sample_disk\<rparr>"

text \<open>Two requests for the page with a change of the template file between them.\<close>

definition sample_run :: "occurrence list" where
  "sample_run =
     [Request sample_env (sample_handler ''/index.html''),
      Disk_change ''/home/pi/camera_web/template/index.html''
        (Inr (literal ''<html>changed</html>'')),
      Request sample_env (sample_handler ''/index.html'')]"

text \<open>A host on a local network, and a host without a route.\<close>

definition lan :: net where
  "lan =
     \<lparr>socket_fault = None, connect_fault = (\<lambda>peer. None),
      getsockname = (\<lambda>peer. Inr (''192.168.1.23'', 54321))\<rparr>"

definition offline :: net where
  "offline =
     \<lparr>socket_fault = None,
      connect_fault = (\<lambda>peer. Some (Exn OSError ''[Errno 101] Network is unreachable'')),
      getsockname = (\<lambda>peer. Inr (''0.0.0.0'', 0))\<rparr>"

section \<open>Properties\<close>

lemmas api_defs = send_response_def send_header_def end_headers_def wfile_write_def
  send_error_def logging_def emit_def sock_def raise_def os_makedirs_def capture_file_def

subsection \<open>Routing\<close>

text \<open>
  C5 (as amended). The route is an exact comparison of the request target: a target
  that is exactly \<open>/\<close> is answered with 301 and \<open>Location: /index.html\<close>; the root path
  followed by a query string (\<open>/?\<close> and any text) matches no route and is answered
  with \<open>send_error(404)\<close> (header block and body) followed by the source's own
  \<open>end_headers()\<close>: three socket writes. Both for a client that stays connected.
\<close>

theorem root_redirect_exact_match:
  "(path h = ''/'' \<and> 1 \<le> writes_left h \<longrightarrow>
     do_GET g ev h =
       (Done,
        h\<lparr>trace := trace h @
             [Send_response 301, Send_header ''Location'' ''/index.html'', End_headers],
           writes_left := writes_left h - 1\<rparr>))
   \<and> (path h = ''/?'' @ q \<and> 3 \<le> writes_left h \<longrightarrow>
     do_GET g ev h =
       (Done,
        h\<lparr>trace := trace h @ [Send_error 404, Error_body 404, End_headers],
           writes_left := writes_left h - 3\<rparr>))"
  by (simp add: do_GET_def api_defs)

text \<open>The two routes at the targets \<open>/\<close> and \<open>/?a=1\<close>.\<close>

theorem root_redirect_exact_match_witness:
  "do_GET sample_globals sample_env (sample_handler ''/'') =
     (Done,
      (sample_handler ''/'')
        \<lparr>trace := [Send_response 301, Send_header ''Location'' ''/index.html'', End_headers],
         writes_left := 9\<rparr>)
   \<and> do_GET sample_globals sample_env (sample_handler ''/?a=1'') =
     (Done,
      (sample_handler ''/?a=1'')
        \<lparr>trace := [Send_error 404, Error_body 404, End_headers], writes_left := 7\<rparr>)"
  using
    root_redirect_exact_match
      [where h = "sample_handler ''/''" and g = sample_globals and ev = sample_env]
    root_redirect_exact_match
      [where h = "sample_handler ''/?a=1''" and q = "''a=1''" and g = sample_globals
         and ev = sample_env]
  by (simp add: sample_handler_def)

text \<open>
  C5 as stated fails: \<^verbatim>\<open>GET /?a=1\<close> is the root path with a query string, and the answer
  is 404, with no 301 and no \<open>Location\<close> header.
\<close>

theorem root_with_query_not_redirected:
  "do_GET sample_globals sample_env (sample_handler ''/?a=1'') =
     (Done,
      (sample_handler ''/?a=1'')
        \<lparr>trace := [Send_error 404, Error_body 404, End_headers], writes_left := 7\<rparr>)
   \<and> Send_response 301
       \<notin> set (trace (snd (do_GET sample_globals sample_env (sample_handler ''/?a=1''))))"
  by (simp add: do_GET_def api_defs sample_handler_def)

text \<open>
  When the client goes away after the error response, the source's own \<open>end_headers()\<close>
  raises out of \<open>do_GET\<close>.
\<close>

lemma not_found_client_gone:
  "path h = ''/?'' @ q \<and> writes_left h = 2 \<longrightarrow>
     do_GET g ev h =
       (Raised (fault h),
        h\<lparr>trace := trace h @ [Send_error 404, Error_body 404], writes_left := 0\<rparr>)"
  by (simp add: do_GET_def api_defs)

subsection \<open>The multipart stream\<close>

lemma stream_part_ok:
  "4 \<le> writes_left h \<Longrightarrow>
   stream_part (Some b) h =
     (Done,
      h\<lparr>trace := trace h @
           [Wfile_write (''--FRAME'' @ CRLF),
            Send_header ''Content-Type'' ''image/jpeg'',
            Send_header ''Content-Length'' (str_nat (length b)),
            End_headers,
            Wfile_write b,
            Wfile_write CRLF],
         writes_left := writes_left h - 4\<rparr>)"
  by (simp add: stream_part_def api_defs)

lemma stream_loop_ok:
  "4 * length bs \<le> writes_left h \<Longrightarrow>
   stream_loop (map Some bs) h =
     (Waiting,
      h\<lparr>trace := trace h @
           concat (map (\<lambda>b. [Wfile_write (''--FRAME'' @ CRLF),
                              Send_header ''Content-Type'' ''image/jpeg'',
                              Send_header ''Content-Length'' (str_nat (length b)),
                              End_headers,
                              Wfile_write b,
                              Wfile_write CRLF]) bs),
         writes_left := writes_left h - 4 * length bs\<rparr>)"
proof (induction bs arbitrary: h)
  case Nil
  then show ?case by simp
next
  case (Cons b bs)
  let ?h' = "h\<lparr>trace := trace h @
                  [Wfile_write (''--FRAME'' @ CRLF),
                   Send_header ''Content-Type'' ''image/jpeg'',
                   Send_header ''Content-Length'' (str_nat (length b)),
                   End_headers,
                   Wfile_write b,
                   Wfile_write CRLF],
                writes_left := writes_left h - 4\<rparr>"
  from Cons.prems have first: "4 \<le> writes_left h" by simp
  from Cons.prems have "4 * length bs \<le> writes_left ?h'" by simp
  from Cons.IH [OF this] stream_part_ok [OF first, of b]
  show ?case by simp
qed

lemma wire_from_parts:
  "wire_from lib [] (concat (map (\<lambda>b. [Wfile_write (''--FRAME'' @ CRLF),
                                        Send_header ''Content-Type'' ''image/jpeg'',
                                        Send_header ''Content-Length'' (str_nat (length b)),
                                        End_headers,
                                        Wfile_write b,
                                        Wfile_write CRLF]) bs))
   = concat (map (\<lambda>b. ''--FRAME'' @ CRLF
                       @ ''Content-Type: image/jpeg'' @ CRLF
                       @ ''Content-Length: '' @ str_nat (length b) @ CRLF
                       @ CRLF @ b @ CRLF) bs)"
  by (induction bs) (simp_all add: header_line_def)

lemma str_nat_0: "str_nat 0 = ''0''"
  by code_simp

text \<open>
  C3. A request for \<open>/stream.mjpg\<close> on a fresh handler, whose waits return the frames
  \<open>bs\<close> while the client stays connected: the handler sends the 200 response with the
  four headers, then for each frame, in order, the boundary line, the two part headers
  (the length being the frame's byte length in decimal), the blank line, the frame's
  bytes and a line end; after the last frame it is blocked in the next wait. The second
  part gives the same as the bytes on the wire.
\<close>

theorem stream_response_format:
  "path h = ''/stream.mjpg'' \<and> trace h = [] \<and> waits ev = map Some bs
    \<and> 1 + 4 * length bs \<le> writes_left h \<longrightarrow>
   do_GET g ev h =
     (Waiting,
      h\<lparr>trace :=
           [Send_response 200,
            Send_header ''Age'' ''0'',
            Send_header ''Cache-Control'' ''no-cache, private'',
            Send_header ''Pragma'' ''no-cache'',
            Send_header ''Content-Type'' ''multipart/x-mixed-replace; boundary=FRAME'',
            End_headers]
           @ concat (map (\<lambda>b. [Wfile_write (''--FRAME'' @ CRLF),
                                Send_header ''Content-Type'' ''image/jpeg'',
                                Send_header ''Content-Length'' (str_nat (length b)),
                                End_headers,
                                Wfile_write b,
                                Wfile_write CRLF]) bs),
         writes_left := writes_left h - (1 + 4 * length bs)\<rparr>)
   \<and> wire lib (trace (snd (do_GET g ev h))) =
       response_head lib 200
       @ ''Age: 0'' @ CRLF
       @ ''Cache-Control: no-cache, private'' @ CRLF
       @ ''Pragma: no-cache'' @ CRLF
       @ ''Content-Type: multipart/x-mixed-replace; boundary=FRAME'' @ CRLF
       @ CRLF
       @ concat (map (\<lambda>b. ''--FRAME'' @ CRLF
                           @ ''Content-Type: image/jpeg'' @ CRLF
                           @ ''Content-Length: '' @ str_nat (length b) @ CRLF
                           @ CRLF @ b @ CRLF) bs)"
proof (intro impI, elim conjE)
  assume p: "path h = ''/stream.mjpg''" and t: "trace h = []" and w: "waits ev = map Some bs"
    and n: "1 + 4 * length bs \<le> writes_left h"
  let ?h1 = "h\<lparr>trace :=
                  [Send_response 200,
                   Send_header ''Age'' ''0'',
                   Send_header ''Cache-Control'' ''no-cache, private'',
                   Send_header ''Pragma'' ''no-cache'',
                   Send_header ''Content-Type'' ''multipart/x-mixed-replace; boundary=FRAME'',
                   End_headers],
                writes_left := writes_left h - 1\<rparr>"
  from n have "4 * length bs \<le> writes_left ?h1" by simp
  note loop = stream_loop_ok [OF this]
  have result: "do_GET g ev h =
     (Waiting,
      h\<lparr>trace :=
           [Send_response 200,
            Send_header ''Age'' ''0'',
            Send_header ''Cache-Control'' ''no-cache, private'',
            Send_header ''Pragma'' ''no-cache'',
            Send_header ''Content-Type'' ''multipart/x-mixed-replace; boundary=FRAME'',
            End_headers]
           @ concat (map (\<lambda>b. [Wfile_write (''--FRAME'' @ CRLF),
                                Send_header ''Content-Type'' ''image/jpeg'',
                                Send_header ''Content-Length'' (str_nat (length b)),
                                End_headers,
                                Wfile_write b,
                                Wfile_write CRLF]) bs),
         writes_left := writes_left h - (1 + 4 * length bs)\<rparr>)"
    using p t w n loop
    by (simp add: do_GET_def api_defs try_except_def str_nat_0)
  show "do_GET g ev h =
     (Waiting,
      h\<lparr>trace :=
           [Send_response 200,
            Send_header ''Age'' ''0'',
            Send_header ''Cache-Control'' ''no-cache, private'',
            Send_header ''Pragma'' ''no-cache'',
            Send_header ''Content-Type'' ''multipart/x-mixed-replace; boundary=FRAME'',
            End_headers]
           @ concat (map (\<lambda>b. [Wfile_write (''--FRAME'' @ CRLF),
                                Send_header ''Content-Type'' ''image/jpeg'',
                                Send_header ''Content-Length'' (str_nat (length b)),
                                End_headers,
                                Wfile_write b,
                                Wfile_write CRLF]) bs),
         writes_left := writes_left h - (1 + 4 * length bs)\<rparr>)
   \<and> wire lib (trace (snd (do_GET g ev h))) =
       response_head lib 200
       @ ''Age: 0'' @ CRLF
       @ ''Cache-Control: no-cache, private'' @ CRLF
       @ ''Pragma: no-cache'' @ CRLF
       @ ''Content-Type: multipart/x-mixed-replace; boundary=FRAME'' @ CRLF
       @ CRLF
       @ concat (map (\<lambda>b. ''--FRAME'' @ CRLF
                           @ ''Content-Type: image/jpeg'' @ CRLF
                           @ ''Content-Length: '' @ str_nat (length b) @ CRLF
                           @ CRLF @ b @ CRLF) bs)"
    using wire_from_parts [of lib bs]
    by (simp add: result wire_def header_line_def)
qed

lemma str_nat_5: "str_nat (length ''JPEG1'') = ''5''"
  by code_simp

lemma str_nat_12: "str_nat (length ''0123456789ab'') = ''12''"
  by code_simp

lemma str_nat_200: "str_nat 200 = ''200''"
  by code_simp


text \<open>
  The stream of two frames of 5 and 12 bytes to a client that accepts ten writes, as
  calls and as bytes.
\<close>

theorem stream_response_format_witness:
  "do_GET sample_globals (sample_env\<lparr>waits := map Some sample_frames\<rparr>) (sample_handler ''/stream.mjpg'') =
     (Waiting,
      (sample_handler ''/stream.mjpg'')
      \<lparr>trace :=
           [Send_response 200,
            Send_header ''Age'' ''0'',
            Send_header ''Cache-Control'' ''no-cache, private'',
            Send_header ''Pragma'' ''no-cache'',
            Send_header ''Content-Type'' ''multipart/x-mixed-replace; boundary=FRAME'',
            End_headers,
            Wfile_write (''--FRAME'' @ CRLF),
            Send_header ''Content-Type'' ''image/jpeg'',
            Send_header ''Content-Length'' ''5'',
            End_headers,
            Wfile_write ''JPEG1'',
            Wfile_write CRLF,
            Wfile_write (''--FRAME'' @ CRLF),
            Send_header ''Content-Type'' ''image/jpeg'',
            Send_header ''Content-Length'' ''12'',
            End_headers,
            Wfile_write ''0123456789ab'',
            Wfile_write CRLF],
         writes_left := 1\<rparr>)
   \<and> wire sample_httpd (trace (snd (do_GET sample_globals (sample_env\<lparr>waits := map Some sample_frames\<rparr>) (sample_handler ''/stream.mjpg'')))) =
       ''HTTP/1.0 200 OK'' @ CRLF
       @ ''Server: BaseHTTP/0.6 Python/3.11.2'' @ CRLF
       @ ''Date: Mon, 01 Jan 2024 12:00:00 GMT'' @ CRLF
       @ ''Age: 0'' @ CRLF
       @ ''Cache-Control: no-cache, private'' @ CRLF
       @ ''Pragma: no-cache'' @ CRLF
       @ ''Content-Type: multipart/x-mixed-replace; boundary=FRAME'' @ CRLF
       @ CRLF
       @ ''--FRAME'' @ CRLF
       @ ''Content-Type: image/jpeg'' @ CRLF
       @ ''Content-Length: 5'' @ CRLF
       @ CRLF @ ''JPEG1'' @ CRLF
       @ ''--FRAME'' @ CRLF
       @ ''Content-Type: image/jpeg'' @ CRLF
       @ ''Content-Length: 12'' @ CRLF
       @ CRLF @ ''0123456789ab'' @ CRLF"
proof -
  note inst = stream_response_format [where h = "sample_handler ''/stream.mjpg''" and bs = sample_frames
      and ev = "sample_env\<lparr>waits := map Some sample_frames\<rparr>" and g = sample_globals and lib = sample_httpd]
  have hyp: "path (sample_handler ''/stream.mjpg'') = ''/stream.mjpg'' \<and> trace (sample_handler ''/stream.mjpg'') = []
     \<and> waits (sample_env\<lparr>waits := map Some sample_frames\<rparr>) = map Some sample_frames
     \<and> 1 + 4 * length sample_frames \<le> writes_left (sample_handler ''/stream.mjpg'')"
    by (simp add: sample_handler_def sample_frames_def)
  note both = inst [THEN mp, OF hyp]
  show ?thesis
    using both [THEN conjunct1] both [THEN conjunct2]
    by (simp add: sample_handler_def sample_frames_def sample_httpd_def str_nat_5 [simplified] str_nat_12 [simplified] str_nat_200
      response_head_def reason_phrase_def header_line_def)
qed

subsection \<open>The snapshot route\<close>

text \<open>
  C6. A request for \<open>/snapshot\<close> on a fresh handler whose client stays connected. The
  directory is created and the capture is called once, inside the request; when both
  succeed the response is 200 with the body \<open>Snapshot saved.\<close>; when either raises, the
  error is logged with its message and the response is 500 with the body
  \<open>Failed to save snapshot.\<close>, the capture is not called again, and nothing but this
  handler's trace and its socket changes. A 200 is sent exactly when both succeeded, a
  500 exactly when one failed.
\<close>

theorem snapshot_response:
  "path h = ''/snapshot'' \<and> trace h = [] \<and> 2 \<le> writes_left h \<longrightarrow>
   (makedirs_fault ev = None \<and> capture_fault ev = None \<longrightarrow>
      do_GET g ev h =
        (Done,
         h\<lparr>trace :=
              [Makedirs (dirname (snapshot_path g ev)),
               Capture_file (snapshot_path g ev),
               Send_response 200,
               End_headers,
               Wfile_write ''Snapshot saved.'',
               Logging INFO (''Snapshot saved to '' @ snapshot_path g ev)],
            writes_left := writes_left h - 2\<rparr>)
      \<and> wire lib (trace (snd (do_GET g ev h))) = response_head lib 200 @ CRLF @ ''Snapshot saved.'')
   \<and> (makedirs_fault ev = None \<and> capture_fault ev = Some e \<longrightarrow>
      do_GET g ev h =
        (Done,
         h\<lparr>trace :=
              [Makedirs (dirname (snapshot_path g ev)),
               Capture_file (snapshot_path g ev),
               Logging ERROR (''Error capturing snapshot: '' @ msg e),
               Send_response 500,
               End_headers,
               Wfile_write ''Failed to save snapshot.''],
            writes_left := writes_left h - 2\<rparr>)
      \<and> wire lib (trace (snd (do_GET g ev h)))
          = response_head lib 500 @ CRLF @ ''Failed to save snapshot.'')
   \<and> (makedirs_fault ev = Some e \<longrightarrow>
      do_GET g ev h =
        (Done,
         h\<lparr>trace :=
              [Makedirs (dirname (snapshot_path g ev)),
               Logging ERROR (''Error capturing snapshot: '' @ msg e),
               Send_response 500,
               End_headers,
               Wfile_write ''Failed to save snapshot.''],
            writes_left := writes_left h - 2\<rparr>)
      \<and> wire lib (trace (snd (do_GET g ev h)))
          = response_head lib 500 @ CRLF @ ''Failed to save snapshot.'')
   \<and> (Send_response 200 \<in> set (trace (snd (do_GET g ev h)))
        \<longleftrightarrow> makedirs_fault ev = None \<and> capture_fault ev = None)
   \<and> (Send_response 500 \<in> set (trace (snd (do_GET g ev h)))
        \<longleftrightarrow> \<not> (makedirs_fault ev = None \<and> capture_fault ev = None))
   \<and> length (filter (\<lambda>c. c = Capture_file (snapshot_path g ev)) (trace (snd (do_GET g ev h)))) \<le> 1"
  by (cases "makedirs_fault ev"; cases "capture_fault ev")
     (simp_all add: do_GET_def try_except_def snapshot_try_def snapshot_except_def api_defs wire_def)

text \<open>A capture that succeeds, and one where the camera raises.\<close>

theorem snapshot_response_witness:
  "do_GET sample_globals sample_env (sample_handler ''/snapshot'') =
     (Done,
      (sample_handler ''/snapshot'')
        \<lparr>trace :=
           [Makedirs ''/home/pi/camera_web/snapshots'',
            Capture_file ''/home/pi/camera_web/snapshots/snapshot_20240101_120000.jpg'',
            Send_response 200,
            End_headers,
            Wfile_write ''Snapshot saved.'',
            Logging INFO ''Snapshot saved to /home/pi/camera_web/snapshots/snapshot_20240101_120000.jpg''],
         writes_left := 8\<rparr>)
   \<and> do_GET sample_globals (sample_env\<lparr>capture_fault := Some camera_busy\<rparr>) (sample_handler ''/snapshot'') =
     (Done,
      (sample_handler ''/snapshot'')
        \<lparr>trace :=
           [Makedirs ''/home/pi/camera_web/snapshots'',
            Capture_file ''/home/pi/camera_web/snapshots/snapshot_20240101_120000.jpg'',
            Logging ERROR ''Error capturing snapshot: Camera is busy'',
            Send_response 500,
            End_headers,
            Wfile_write ''Failed to save snapshot.''],
         writes_left := 8\<rparr>)
   \<and> wire sample_httpd
        (trace (snd (do_GET sample_globals (sample_env\<lparr>capture_fault := Some camera_busy\<rparr>)
                       (sample_handler ''/snapshot''))))
       = ''HTTP/1.0 500 Internal Server Error'' @ CRLF
         @ ''Server: BaseHTTP/0.6 Python/3.11.2'' @ CRLF
         @ ''Date: Mon, 01 Jan 2024 12:00:00 GMT'' @ CRLF
         @ CRLF @ ''Failed to save snapshot.''"
proof -
  have p: "snapshot_path sample_globals sample_env
             = ''/home/pi/camera_web/snapshots/snapshot_20240101_120000.jpg''"
    by (simp add: snapshot_path_def sample_globals_def sample_env_def path_join_def join_step_def)
  have q: "snapshot_path sample_globals (sample_env\<lparr>capture_fault := Some camera_busy\<rparr>)
             = ''/home/pi/camera_web/snapshots/snapshot_20240101_120000.jpg''"
    by (simp add: snapshot_path_def sample_globals_def sample_env_def path_join_def join_step_def)
  have d: "dirname ''/home/pi/camera_web/snapshots/snapshot_20240101_120000.jpg''
             = ''/home/pi/camera_web/snapshots''"
    by (simp add: dirname_def)
  have c: "str_nat 500 = ''500''"
    by code_simp
  have live: "path (sample_handler ''/snapshot'') = ''/snapshot'' \<and> trace (sample_handler ''/snapshot'') = []
      \<and> 2 \<le> writes_left (sample_handler ''/snapshot'')"
    by (simp add: sample_handler_def)
  note good = snapshot_response [where h = "sample_handler ''/snapshot''" and g = sample_globals
      and ev = sample_env, THEN mp, OF live, THEN conjunct1]
  note bad = snapshot_response [where h = "sample_handler ''/snapshot''" and g = sample_globals
      and ev = "sample_env\<lparr>capture_fault := Some camera_busy\<rparr>" and e = camera_busy
      and lib = sample_httpd, THEN mp, OF live, THEN conjunct2, THEN conjunct1]
  from good have a: "do_GET sample_globals sample_env (sample_handler ''/snapshot'') =
     (Done,
      (sample_handler ''/snapshot'')
        \<lparr>trace :=
           [Makedirs ''/home/pi/camera_web/snapshots'',
            Capture_file ''/home/pi/camera_web/snapshots/snapshot_20240101_120000.jpg'',
            Send_response 200,
            End_headers,
            Wfile_write ''Snapshot saved.'',
            Logging INFO ''Snapshot saved to /home/pi/camera_web/snapshots/snapshot_20240101_120000.jpg''],
         writes_left := 8\<rparr>)"
    by (simp add: p d) (simp add: sample_env_def sample_handler_def)
  have f: "makedirs_fault (sample_env\<lparr>capture_fault := Some camera_busy\<rparr>) = None
      \<and> capture_fault (sample_env\<lparr>capture_fault := Some camera_busy\<rparr>) = Some camera_busy"
    by (simp add: sample_env_def)
  from bad [THEN mp, OF f, THEN conjunct1]
  have b: "do_GET sample_globals (sample_env\<lparr>capture_fault := Some camera_busy\<rparr>) (sample_handler ''/snapshot'') =
     (Done,
      (sample_handler ''/snapshot'')
        \<lparr>trace :=
           [Makedirs ''/home/pi/camera_web/snapshots'',
            Capture_file ''/home/pi/camera_web/snapshots/snapshot_20240101_120000.jpg'',
            Logging ERROR ''Error capturing snapshot: Camera is busy'',
            Send_response 500,
            End_headers,
            Wfile_write ''Failed to save snapshot.''],
         writes_left := 8\<rparr>)"
    by (simp add: q d) (simp add: sample_handler_def camera_busy_def)
  from bad [THEN mp, OF f, THEN conjunct2]
  have w: "wire sample_httpd
        (trace (snd (do_GET sample_globals (sample_env\<lparr>capture_fault := Some camera_busy\<rparr>)
                       (sample_handler ''/snapshot''))))
       = ''HTTP/1.0 500 Internal Server Error'' @ CRLF
         @ ''Server: BaseHTTP/0.6 Python/3.11.2'' @ CRLF
         @ ''Date: Mon, 01 Jan 2024 12:00:00 GMT'' @ CRLF
         @ CRLF @ ''Failed to save snapshot.''"
    by (simp add: response_head_def reason_phrase_def header_line_def sample_httpd_def c)
  from a b w show ?thesis by simp
qed

subsection \<open>The HTML template\<close>

lemma encode_fallback:
  "encode_utf8 fallback_html = Inr ''<html><body><h1>Error: Template not found.</h1></body></html>''"
  by code_simp

lemma str_nat_61:
  "str_nat (length ''<html><body><h1>Error: Template not found.</h1></body></html>'') = ''61''"
  by code_simp

lemma index_ok:
  "path h = ''/index.html'' \<Longrightarrow> 2 \<le> writes_left h \<Longrightarrow> encode_utf8 (HTML_TEMPLATE g) = Inr body \<Longrightarrow>
   do_GET g ev h =
     (Done,
      h\<lparr>trace := trace h @
           [Send_response 200,
            Send_header ''Content-Type'' ''text/html'',
            Send_header ''Content-Length'' (str_nat (length body)),
            End_headers,
            Wfile_write body],
         writes_left := writes_left h - 2\<rparr>)"
  by (simp add: do_GET_def api_defs)

text \<open>
  C7. When opening the template file raises \<^verbatim>\<open>FileNotFoundError\<close>, loading it returns the
  fixed fallback page and logs an error, the module load succeeds with the fallback as
  \<^verbatim>\<open>HTML_TEMPLATE\<close>, and a request for \<open>/index.html\<close> is then answered 200 with the
  fallback page as body (61 bytes).
\<close>

theorem missing_template_fallback:
  "d (template_path base ''index.html'') = Inl e \<and> cls e = FileNotFoundError \<longrightarrow>
     load_html_template base d ''index.html'' =
       (Inr fallback_html,
        [Logging ERROR
           (''HTML template file '' @ quote @ template_path base ''index.html'' @ quote
            @ '' not found.'')])
   \<and> module_load base d =
       Inr (\<lparr>py_globals = \<lparr>BASE_DIR = base, HTML_TEMPLATE = fallback_html\<rparr>, files = d\<rparr>,
            [Logging ERROR
               (''HTML template file '' @ quote @ template_path base ''index.html'' @ quote
                @ '' not found.'')])
   \<and> (path h = ''/index.html'' \<and> 2 \<le> writes_left h \<longrightarrow>
        do_GET \<lparr>BASE_DIR = base, HTML_TEMPLATE = fallback_html\<rparr> ev h =
          (Done,
           h\<lparr>trace := trace h @
                [Send_response 200,
                 Send_header ''Content-Type'' ''text/html'',
                 Send_header ''Content-Length'' ''61'',
                 End_headers,
                 Wfile_write ''<html><body><h1>Error: Template not found.</h1></body></html>''],
              writes_left := writes_left h - 2\<rparr>))"
proof (intro impI conjI)
  assume a: "d (template_path base ''index.html'') = Inl e \<and> cls e = FileNotFoundError"
  then show l: "load_html_template base d ''index.html'' =
       (Inr fallback_html,
        [Logging ERROR
           (''HTML template file '' @ quote @ template_path base ''index.html'' @ quote
            @ '' not found.'')])"
    by (simp add: load_html_template_def)
  then show "module_load base d =
       Inr (\<lparr>py_globals = \<lparr>BASE_DIR = base, HTML_TEMPLATE = fallback_html\<rparr>, files = d\<rparr>,
            [Logging ERROR
               (''HTML template file '' @ quote @ template_path base ''index.html'' @ quote
                @ '' not found.'')])"
    by (simp add: module_load_def)
next
  assume "path h = ''/index.html'' \<and> 2 \<le> writes_left h"
  then have "path h = ''/index.html''" and "2 \<le> writes_left h" by simp_all
  from index_ok [OF this, of "\<lparr>BASE_DIR = base, HTML_TEMPLATE = fallback_html\<rparr>" _ ev]
    encode_fallback
  show "do_GET \<lparr>BASE_DIR = base, HTML_TEMPLATE = fallback_html\<rparr> ev h =
          (Done,
           h\<lparr>trace := trace h @
                [Send_response 200,
                 Send_header ''Content-Type'' ''text/html'',
                 Send_header ''Content-Length'' ''61'',
                 End_headers,
                 Wfile_write ''<html><body><h1>Error: Template not found.</h1></body></html>''],
              writes_left := writes_left h - 2\<rparr>)"
    using str_nat_61 [simplified] by simp
qed

text \<open>Start on a disk that has no template file, then a request for the page.\<close>

theorem missing_template_fallback_witness:
  "module_load ''/home/pi/camera_web'' no_disk =
     Inr (\<lparr>py_globals = sample_globals, files = no_disk\<rparr>,
          [Logging ERROR
             (''HTML template file '' @ quote @ ''/home/pi/camera_web/template/index.html'' @ quote
              @ '' not found.'')])
   \<and> do_GET sample_globals sample_env (sample_handler ''/index.html'') =
       (Done,
        (sample_handler ''/index.html'')
          \<lparr>trace :=
             [Send_response 200,
              Send_header ''Content-Type'' ''text/html'',
              Send_header ''Content-Length'' ''61'',
              End_headers,
              Wfile_write ''<html><body><h1>Error: Template not found.</h1></body></html>''],
           writes_left := 8\<rparr>)"
proof -
  have tp: "template_path ''/home/pi/camera_web'' ''index.html''
              = ''/home/pi/camera_web/template/index.html''"
    by (simp add: template_path_def path_join_def join_step_def)
  have missing: "no_disk (template_path ''/home/pi/camera_web'' ''index.html'')
                   = Inl (Exn FileNotFoundError ''[Errno 2] No such file or directory'')
                 \<and> cls (Exn FileNotFoundError ''[Errno 2] No such file or directory'') = FileNotFoundError"
    by (simp add: no_disk_def)
  have live: "path (sample_handler ''/index.html'') = ''/index.html''
              \<and> 2 \<le> writes_left (sample_handler ''/index.html'')"
    by (simp add: sample_handler_def)
  note all = missing_template_fallback [where d = no_disk and base = "''/home/pi/camera_web''"
      and h = "sample_handler ''/index.html''" and ev = sample_env, THEN mp, OF missing]
  from all [THEN conjunct2, THEN conjunct1]
  have a: "module_load ''/home/pi/camera_web'' no_disk =
     Inr (\<lparr>py_globals = sample_globals, files = no_disk\<rparr>,
          [Logging ERROR
             (''HTML template file '' @ quote @ ''/home/pi/camera_web/template/index.html'' @ quote
              @ '' not found.'')])"
    by (simp add: tp sample_globals_def)
  from all [THEN conjunct2, THEN conjunct2, THEN mp, OF live]
  have b: "do_GET sample_globals sample_env (sample_handler ''/index.html'') =
       (Done,
        (sample_handler ''/index.html'')
          \<lparr>trace :=
             [Send_response 200,
              Send_header ''Content-Type'' ''text/html'',
              Send_header ''Content-Length'' ''61'',
              End_headers,
              Wfile_write ''<html><body><h1>Error: Template not found.</h1></body></html>''],
           writes_left := 8\<rparr>)"
    by (simp add: sample_globals_def) (simp add: sample_handler_def)
  from a b show ?thesis by (rule conjI)
qed

lemma serve_globals: "py_globals (fst (serve p os)) = py_globals p"
proof (induction os arbitrary: p)
  case Nil
  show ?case by simp
next
  case (Cons o1 os)
  show ?case
  proof (cases o1)
    case (Disk_change f c)
    with Cons.IH [of "p\<lparr>files := (files p)(f := c)\<rparr>"] show ?thesis by simp
  next
    case (Request ev h)
    with Cons.IH [of p] show ?thesis by (cases "serve p os") simp
  qed
qed

lemma serve_answers:
  "snd (serve p os) = map (\<lambda>(ev, h). do_GET (py_globals p) ev h) (requests os)"
proof (induction os arbitrary: p)
  case Nil
  show ?case by simp
next
  case (Cons o1 os)
  show ?case
  proof (cases o1)
    case (Disk_change f c)
    with Cons.IH [of "p\<lparr>files := (files p)(f := c)\<rparr>"] show ?thesis by simp
  next
    case (Request ev h)
    with Cons.IH [of p] show ?thesis by (cases "serve p os") simp
  qed
qed

lemma module_load_template:
  "module_load base d = Inr (p, lg) \<Longrightarrow>
   HTML_TEMPLATE (py_globals p) =
     (case d (template_path base ''index.html'') of Inr text \<Rightarrow> text | Inl e \<Rightarrow> fallback_html)"
  by (auto simp add: module_load_def load_html_template_def split: sum.splits if_splits)

text \<open>
  C10. The template is read when the module is loaded and bound to \<^verbatim>\<open>HTML_TEMPLATE\<close>:
  its value is what the disk held then (or the fallback). Whatever requests are served
  and however the disk changes afterwards, the globals stay as loaded, every request is
  answered from them, and a request for \<open>/index.html\<close> gets the same body and the same
  \<open>Content-Length\<close>, those of the template as loaded.
\<close>

theorem template_fixed_at_load:
  "module_load base d = Inr (p, lg) \<longrightarrow>
     HTML_TEMPLATE (py_globals p) =
       (case d (template_path base ''index.html'') of Inr text \<Rightarrow> text | Inl e \<Rightarrow> fallback_html)
   \<and> py_globals (fst (serve p os)) = py_globals p
   \<and> snd (serve p os) = map (\<lambda>(ev, h). do_GET (py_globals p) ev h) (requests os)
   \<and> (encode_utf8 (HTML_TEMPLATE (py_globals p)) = Inr body \<and> path h = ''/index.html''
        \<and> 2 \<le> writes_left h \<longrightarrow>
      do_GET (py_globals (fst (serve p os))) ev h =
        (Done,
         h\<lparr>trace := trace h @
              [Send_response 200,
               Send_header ''Content-Type'' ''text/html'',
               Send_header ''Content-Length'' (str_nat (length body)),
               End_headers,
               Wfile_write body],
            writes_left := writes_left h - 2\<rparr>))"
  using module_load_template [of base d p lg] serve_globals [of p os] serve_answers [of p os]
    index_ok [of h "py_globals p" body ev]
  by simp

lemma encode_live: "encode_utf8 (literal ''<html>live</html>'') = Inr ''<html>live</html>''"
  by code_simp

lemma str_nat_17: "str_nat (length ''<html>live</html>'') = ''17''"
  by code_simp

text \<open>
  The template file is replaced between two requests; the page served afterwards is
  still the one loaded at the start.
\<close>

theorem template_fixed_at_load_witness:
  "module_load ''/home/pi/camera_web'' sample_disk = Inr (sample_process, [])
   \<and> files (fst (serve sample_process sample_run)) ''/home/pi/camera_web/template/index.html''
       = Inr (literal ''<html>changed</html>'')
   \<and> HTML_TEMPLATE (py_globals (fst (serve sample_process sample_run))) = literal ''<html>live</html>''
   \<and> do_GET (py_globals (fst (serve sample_process sample_run))) sample_env
         (sample_handler ''/index.html'') =
       (Done,
        (sample_handler ''/index.html'')
          \<lparr>trace :=
             [Send_response 200,
              Send_header ''Content-Type'' ''text/html'',
              Send_header ''Content-Length'' ''17'',
              End_headers,
              Wfile_write ''<html>live</html>''],
           writes_left := 8\<rparr>)"
proof -
  have tp: "template_path ''/home/pi/camera_web'' ''index.html''
              = ''/home/pi/camera_web/template/index.html''"
    by (simp add: template_path_def path_join_def join_step_def)
  have load: "module_load ''/home/pi/camera_web'' sample_disk = Inr (sample_process, [])"
    by (simp add: module_load_def load_html_template_def tp sample_disk_def sample_process_def)
  have disk: "files (fst (serve sample_process sample_run)) ''/home/pi/camera_web/template/index.html''
       = Inr (literal ''<html>changed</html>'')"
    by (simp add: sample_run_def split: prod.splits)
  have pre: "encode_utf8 (HTML_TEMPLATE (py_globals sample_process)) = Inr ''<html>live</html>''
      \<and> path (sample_handler ''/index.html'') = ''/index.html''
      \<and> 2 \<le> writes_left (sample_handler ''/index.html'')"
    by (simp add: sample_process_def encode_live sample_handler_def)
  note all = template_fixed_at_load [where base = "''/home/pi/camera_web''" and d = sample_disk
      and p = sample_process and lg = "[]" and os = sample_run and body = "''<html>live</html>''"
      and h = "sample_handler ''/index.html''" and ev = sample_env, THEN mp, OF load]
  from all [THEN conjunct2, THEN conjunct1]
  have same: "HTML_TEMPLATE (py_globals (fst (serve sample_process sample_run))) = literal ''<html>live</html>''"
    by (simp add: sample_process_def)
  from all [THEN conjunct2, THEN conjunct2, THEN conjunct2, THEN mp, OF pre]
  have answer: "do_GET (py_globals (fst (serve sample_process sample_run))) sample_env
         (sample_handler ''/index.html'') =
       (Done,
        (sample_handler ''/index.html'')
          \<lparr>trace :=
             [Send_response 200,
              Send_header ''Content-Type'' ''text/html'',
              Send_header ''Content-Length'' ''17'',
              End_headers,
              Wfile_write ''<html>live</html>''],
           writes_left := 8\<rparr>)"
    using str_nat_17 [simplified] by (simp add: sample_handler_def)
  from load disk same answer show ?thesis by simp
qed

subsection \<open>Start-up: the flip flag and the local address\<close>

text \<open>
  C8. The transform requests the mirroring the flag names: \<open>hv\<close> both, \<open>h\<close> horizontal
  only, \<open>v\<close> vertical only, \<open>none\<close> or no flag neither.
\<close>

theorem flip_transform:
  "main_transform (Some ''hv'') = Some \<lparr>hflip = True, vflip = True\<rparr>
   \<and> main_transform (Some ''h'') = Some \<lparr>hflip = True, vflip = False\<rparr>
   \<and> main_transform (Some ''v'') = Some \<lparr>hflip = False, vflip = True\<rparr>
   \<and> main_transform (Some ''none'') = Some \<lparr>hflip = False, vflip = False\<rparr>
   \<and> main_transform None = Some \<lparr>hflip = False, vflip = False\<rparr>"
  by (simp add: main_transform_def parse_flip_def flip_choices_def make_transform_def)

text \<open>
  C9. \<^verbatim>\<open>get_local_ip\<close> always returns a string and never raises: the host part of the
  socket's own address when creating the socket, connecting it to 8.8.8.8 port 80 and
  reading its name all succeed, and \<open>127.0.0.1\<close> when any of the three raises.
\<close>

theorem get_local_ip_total:
  "(\<exists>host. get_local_ip n = Inr host)
   \<and> (socket_fault n = None \<and> connect_fault n (''8.8.8.8'', 80) = None
        \<and> getsockname n (''8.8.8.8'', 80) = Inr (host, port)
       \<longrightarrow> get_local_ip n = Inr host)
   \<and> (socket_fault n = Some e \<or> connect_fault n (''8.8.8.8'', 80) = Some e
        \<or> getsockname n (''8.8.8.8'', 80) = Inl e
       \<longrightarrow> get_local_ip n = Inr ''127.0.0.1'')"
  by (auto simp add: get_local_ip_def local_ip_attempt_def split: option.splits sum.splits)

text \<open>A host with a local address, and a host whose connect fails.\<close>

theorem get_local_ip_total_witness:
  "get_local_ip lan = Inr ''192.168.1.23'' \<and> get_local_ip offline = Inr ''127.0.0.1''"
  using get_local_ip_total [where n = lan and host = "''192.168.1.23''" and port = 54321]
    get_local_ip_total [where n = offline
      and e = "Exn OSError ''[Errno 101] Network is unreachable''"]
  by (simp add: lan_def offline_def)

subsection \<open>The frame hand-off\<close>

lemma step_frame:
  "step s e = Some s' \<Longrightarrow> frame s' = (case e of Write b \<Rightarrow> Some b | _ \<Rightarrow> frame s)"
  by (cases e) (auto simp add: output_write_def split: if_splits)

lemma frame_after:
  "run s evs = Some s' \<Longrightarrow>
   frame s' = (if published evs = [] then frame s else Some (last (published evs)))"
proof (induction evs arbitrary: s)
  case Nil
  then show ?case by simp
next
  case (Cons e evs)
  from Cons.prems obtain s1 where s1: "step s e = Some s1" and rest: "run s1 evs = Some s'"
    by (auto split: option.splits)
  from Cons.IH [OF rest] step_frame [OF s1]
  show ?case by (cases e) simp_all
qed

lemma idle_receives_nothing:
  "t \<notin> notified s \<Longrightarrow> published evs = [] \<Longrightarrow> received t s evs = []"
proof (induction evs arbitrary: s)
  case Nil
  show ?case by simp
next
  case (Cons e evs)
  show ?case
  proof (cases e)
    case (Write b)
    with Cons.prems show ?thesis by simp
  next
    case (Wait_begin u)
    with Cons.prems Cons.IH [of "s\<lparr>waiting := insert u (waiting s)\<rparr>"]
    show ?thesis by simp
  next
    case (Wait_end u)
    with Cons.prems Cons.IH [of "s\<lparr>notified := notified s - {u}\<rparr>"]
    show ?thesis by auto
  qed
qed

lemma blocked_stays:
  "t \<in> waiting s \<Longrightarrow> t \<notin> notified s \<Longrightarrow> published evs = [] \<Longrightarrow> run s evs = Some s' \<Longrightarrow>
   t \<in> waiting s' \<and> t \<notin> notified s'"
proof (induction evs arbitrary: s)
  case Nil
  then show ?case by simp
next
  case (Cons e evs)
  show ?case
  proof (cases e)
    case (Write b)
    with Cons.prems show ?thesis by simp
  next
    case (Wait_begin u)
    with Cons.prems Cons.IH [of "s\<lparr>waiting := insert u (waiting s)\<rparr>"]
    show ?thesis by (simp split: if_splits)
  next
    case (Wait_end u)
    with Cons.prems Cons.IH [of "s\<lparr>notified := notified s - {u}\<rparr>"]
    show ?thesis by (simp split: if_splits)
  qed
qed

lemma no_wait_end_no_frame:
  "Wait_end t \<notin> set evs \<Longrightarrow> received t s evs = []"
  by (induction evs arbitrary: s) (auto split: option.splits)

lemma received_append:
  "run s xs = Some s' \<Longrightarrow> received t s (xs @ ys) = received t s xs @ received t s' ys"
  by (induction xs arbitrary: s) (auto split: option.splits)

lemma notified_receives_once:
  "t \<in> notified s \<Longrightarrow> published evs = [] \<Longrightarrow> run s evs = Some s' \<Longrightarrow>
   received t s evs = (if Wait_end t \<in> set evs then [frame s] else [])"
proof (induction evs arbitrary: s)
  case Nil
  show ?case by simp
next
  case (Cons e evs)
  show ?case
  proof (cases e)
    case (Write b)
    with Cons.prems show ?thesis by simp
  next
    case (Wait_begin u)
    with Cons.prems Cons.IH [of "s\<lparr>waiting := insert u (waiting s)\<rparr>"]
    show ?thesis by (simp split: if_splits)
  next
    case (Wait_end u)
    show ?thesis
    proof (cases "u = t")
      case True
      with Wait_end Cons.prems
        idle_receives_nothing [of t "s\<lparr>notified := notified s - {t}\<rparr>" evs]
      show ?thesis by simp
    next
      case False
      with Wait_end Cons.prems Cons.IH [of "s\<lparr>notified := notified s - {u}\<rparr>"]
      show ?thesis by (simp split: if_splits)
    qed
  qed
qed

lemma received_were_published:
  "notified s = {} \<or> frame s \<in> Some ` B \<Longrightarrow>
   set (received t s evs) \<subseteq> Some ` (B \<union> set (published evs))"
proof (induction evs arbitrary: s B)
  case Nil
  show ?case by simp
next
  case (Cons e evs)
  show ?case
  proof (cases e)
    case (Write b)
    have "notified (output_write b s) = {} \<or> frame (output_write b s) \<in> Some ` (insert b B)"
      by (simp add: output_write_def)
    from Cons.IH [OF this] Write show ?thesis by auto
  next
    case (Wait_begin u)
    with Cons.prems Cons.IH [of "s\<lparr>waiting := insert u (waiting s)\<rparr>" B]
    show ?thesis by auto
  next
    case (Wait_end u)
    with Cons.prems Cons.IH [of "s\<lparr>notified := notified s - {u}\<rparr>" B]
    show ?thesis by auto
  qed
qed

text \<open>
  C1 (as amended). The object holds the current frame and the condition, and no
  generation counter. A thread that enters the wait and later resumes reads the buffer
  of the latest publish, and at least one publish happened after it entered the wait:
  it never resumes without a new publish, and what it reads is not a frame from before
  its wait.
\<close>

theorem reader_wakes_on_later_publish:
  "step s0 (Wait_begin t) = Some s1 \<and> run s1 evs = Some s2 \<and> Wait_end t \<notin> set evs
    \<and> step s2 (Wait_end t) = Some s3 \<longrightarrow>
   published evs \<noteq> []
   \<and> frame s2 = Some (last (published evs))
   \<and> received t s0 (Wait_begin t # evs @ [Wait_end t]) = [Some (last (published evs))]"
proof (intro impI, elim conjE)
  assume b: "step s0 (Wait_begin t) = Some s1" and r: "run s1 evs = Some s2"
    and n: "Wait_end t \<notin> set evs" and e: "step s2 (Wait_end t) = Some s3"
  from b have w1: "t \<in> waiting s1" and n1: "t \<notin> notified s1"
    by (auto split: if_splits)
  from e have n2: "t \<in> notified s2"
    by (auto split: if_splits)
  have p: "published evs \<noteq> []"
  proof
    assume "published evs = []"
    from blocked_stays [OF w1 n1 this r] n2 show False by simp
  qed
  from frame_after [OF r] p have f: "frame s2 = Some (last (published evs))"
    by simp
  from received_append [OF r, of t "[Wait_end t]"] no_wait_end_no_frame [OF n, of s1] e f
  have "received t s1 (evs @ [Wait_end t]) = [Some (last (published evs))]"
    by simp
  with b have "received t s0 (Wait_begin t # evs @ [Wait_end t]) = [Some (last (published evs))]"
    by simp
  with p f show "published evs \<noteq> []
   \<and> frame s2 = Some (last (published evs))
   \<and> received t s0 (Wait_begin t # evs @ [Wait_end t]) = [Some (last (published evs))]"
    by simp
qed

text \<open>
  A thread attaches after \<open>F0\<close> was published; \<open>F1\<close> and \<open>F2\<close> are published while it
  waits, and it reads \<open>F2\<close>.
\<close>

theorem reader_wakes_on_later_publish_witness:
  "published [Write ''F1'', Wait_begin 1, Write ''F2''] \<noteq> []
   \<and> received 0 (output_write ''F0'' StreamingOutput_init)
        [Wait_begin 0, Write ''F1'', Wait_begin 1, Write ''F2'', Wait_end 0] = [Some ''F2'']"
proof -
  let ?s0 = "output_write ''F0'' StreamingOutput_init"
  let ?s1 = "?s0\<lparr>waiting := {0}\<rparr>"
  let ?s2 = "\<lparr>frame = Some ''F2'', waiting = {}, notified = {0, 1}\<rparr>"
  let ?s3 = "\<lparr>frame = Some ''F2'', waiting = {}, notified = {1 :: nat}\<rparr>"
  have h: "step ?s0 (Wait_begin 0) = Some ?s1
     \<and> run ?s1 [Write ''F1'', Wait_begin 1, Write ''F2''] = Some ?s2
     \<and> Wait_end 0 \<notin> set [Write ''F1'', Wait_begin 1, Write ''F2'']
     \<and> step ?s2 (Wait_end 0) = Some ?s3"
    by (auto simp add: output_write_def StreamingOutput_init_def)
  from reader_wakes_on_later_publish [THEN mp, OF h] show ?thesis
    by simp
qed

text \<open>
  C1 as stated fails: publishing the same buffer twice leaves the object in the very
  same state, so nothing in it advances on every publish.
\<close>

theorem no_generation_counter:
  "output_write ''F'' (output_write ''F'' StreamingOutput_init) = output_write ''F'' StreamingOutput_init
   \<and> \<not> (\<exists>gen :: StreamingOutput \<Rightarrow> nat. \<forall>buf out. gen out < gen (output_write buf out))"
proof
  show same: "output_write ''F'' (output_write ''F'' StreamingOutput_init)
          = output_write ''F'' StreamingOutput_init"
    by (simp add: output_write_def StreamingOutput_init_def)
  show "\<not> (\<exists>gen :: StreamingOutput \<Rightarrow> nat. \<forall>buf out. gen out < gen (output_write buf out))"
  proof
    assume "\<exists>gen :: StreamingOutput \<Rightarrow> nat. \<forall>buf out. gen out < gen (output_write buf out)"
    then obtain gen :: "StreamingOutput \<Rightarrow> nat"
      where "\<forall>buf out. gen out < gen (output_write buf out)" ..
    then have "gen (output_write ''F'' StreamingOutput_init)
                 < gen (output_write ''F'' (output_write ''F'' StreamingOutput_init))"
      by blast
    with same show False by simp
  qed
qed

lemma notified_stays:
  "t \<in> notified s \<Longrightarrow> Wait_end t \<notin> set evs \<Longrightarrow> run s evs = Some s' \<Longrightarrow> t \<in> notified s'"
proof (induction evs arbitrary: s)
  case Nil
  then show ?case by simp
next
  case (Cons e evs)
  show ?case
  proof (cases e)
    case (Write b)
    with Cons.prems Cons.IH [of "output_write b s"] show ?thesis
      by (simp add: output_write_def)
  next
    case (Wait_begin u)
    with Cons.prems Cons.IH [of "s\<lparr>waiting := insert u (waiting s)\<rparr>"]
    show ?thesis by (simp split: if_splits)
  next
    case (Wait_end u)
    with Cons.prems Cons.IH [of "s\<lparr>notified := notified s - {u}\<rparr>"]
    show ?thesis by (simp split: if_splits)
  qed
qed

lemma woken_reads_latest:
  assumes w: "t \<in> waiting s"
    and r: "run s (Write F1 # Write F2 # evs) = Some s'"
    and p: "published evs = []"
    and n: "Wait_end t \<notin> set evs"
    and p2: "published evs2 = []"
  shows "step s' (Wait_end t) = Some (s'\<lparr>notified := notified s' - {t}\<rparr>)"
    and "frame s' = Some F2"
    and "received t s (Write F1 # Write F2 # evs @ Wait_end t # evs2) = [Some F2]"
proof -
  let ?s2 = "output_write F2 (output_write F1 s)"
  from w have n2: "t \<in> notified ?s2" by (simp add: output_write_def)
  from r have r2: "run ?s2 evs = Some s'" by simp
  from notified_stays [OF n2 n r2] have n': "t \<in> notified s'" .
  then show e: "step s' (Wait_end t) = Some (s'\<lparr>notified := notified s' - {t}\<rparr>)" by simp
  from frame_after [OF r2] p have "frame s' = frame ?s2" by simp
  then show f: "frame s' = Some F2" by (simp add: output_write_def)
  have after: "received t (s'\<lparr>notified := notified s' - {t}\<rparr>) evs2 = []"
    by (rule idle_receives_nothing) (simp_all add: p2)
  from received_append [OF r2, of t "Wait_end t # evs2"] no_wait_end_no_frame [OF n, of ?s2]
    n' f after
  have "received t ?s2 (evs @ Wait_end t # evs2) = [Some F2]" by simp
  then show "received t s (Write F1 # Write F2 # evs @ Wait_end t # evs2) = [Some F2]"
    by simp
qed

text \<open>
  C2. A thread enters the wait; while it waits, \<open>F1\<close> is published and right after it
  \<open>F2\<close>. Whatever other threads do meanwhile, the thread has been woken: it can resume,
  it then reads \<open>F2\<close>, and until the next publish that is all it reads, so it observes
  \<open>F2\<close> once and never \<open>F1\<close>. The same from any state in which the thread is waiting:
  what it has read is \<open>F2\<close> once if it has resumed and nothing if not, and in the latter
  case it is able to resume. And whatever a thread reads in any run is a whole buffer
  that was published.
\<close>

theorem latest_frame_wins:
  "(step s0 (Wait_begin t) = Some s1 \<and> run s1 evs0 = Some s \<and> published evs0 = []
      \<and> run s (Write F1 # Write F2 # evs) = Some s' \<and> published evs = []
      \<and> Wait_end t \<notin> set evs \<and> published evs2 = [] \<longrightarrow>
      step s' (Wait_end t) = Some (s'\<lparr>notified := notified s' - {t}\<rparr>)
      \<and> frame s' = Some F2
      \<and> received t s0 (Wait_begin t # evs0 @ Write F1 # Write F2 # evs @ Wait_end t # evs2)
          = [Some F2])
   \<and> (t \<in> waiting s \<and> published evs = [] \<and> run s (Write F1 # Write F2 # evs) = Some s' \<longrightarrow>
      received t s (Write F1 # Write F2 # evs) = (if Wait_end t \<in> set evs then [Some F2] else [])
      \<and> (Wait_end t \<in> set evs \<or> step s' (Wait_end t) = Some (s'\<lparr>notified := notified s' - {t}\<rparr>)))
   \<and> set (received u StreamingOutput_init evs') \<subseteq> Some ` set (published evs')"
proof (intro conjI impI)
  assume a: "step s0 (Wait_begin t) = Some s1 \<and> run s1 evs0 = Some s \<and> published evs0 = []
      \<and> run s (Write F1 # Write F2 # evs) = Some s' \<and> published evs = []
      \<and> Wait_end t \<notin> set evs \<and> published evs2 = []"
  then have b: "step s0 (Wait_begin t) = Some s1" and r0: "run s1 evs0 = Some s"
    and p0: "published evs0 = []" and r: "run s (Write F1 # Write F2 # evs) = Some s'"
    and p: "published evs = []" and n: "Wait_end t \<notin> set evs" and p2: "published evs2 = []"
    by simp_all
  from b have w1: "t \<in> waiting s1" and n1: "t \<notin> notified s1"
    by (auto split: if_splits)
  from blocked_stays [OF w1 n1 p0 r0] have w: "t \<in> waiting s" by simp
  note woken = woken_reads_latest [OF w r p n p2]
  from woken(1) show "step s' (Wait_end t) = Some (s'\<lparr>notified := notified s' - {t}\<rparr>)" .
  from woken(2) show "frame s' = Some F2" .
  from idle_receives_nothing [OF n1 p0] have "received t s1 evs0 = []" .
  with received_append [OF r0, of t "Write F1 # Write F2 # evs @ Wait_end t # evs2"] woken(3)
  have "received t s1 (evs0 @ Write F1 # Write F2 # evs @ Wait_end t # evs2) = [Some F2]"
    by simp
  with b show "received t s0 (Wait_begin t # evs0 @ Write F1 # Write F2 # evs @ Wait_end t # evs2)
          = [Some F2]"
    by simp
next
  assume a: "t \<in> waiting s \<and> published evs = [] \<and> run s (Write F1 # Write F2 # evs) = Some s'"
  let ?s2 = "output_write F2 (output_write F1 s)"
  from a have n: "t \<in> notified ?s2" and f: "frame ?s2 = Some F2"
    by (simp_all add: output_write_def)
  from a have r: "run ?s2 evs = Some s'" and p: "published evs = []"
    by simp_all
  from notified_receives_once [OF n p r] f
  show "received t s (Write F1 # Write F2 # evs) = (if Wait_end t \<in> set evs then [Some F2] else [])"
    by simp
next
  assume a: "t \<in> waiting s \<and> published evs = [] \<and> run s (Write F1 # Write F2 # evs) = Some s'"
  show "Wait_end t \<in> set evs \<or> step s' (Wait_end t) = Some (s'\<lparr>notified := notified s' - {t}\<rparr>)"
  proof (cases "Wait_end t \<in> set evs")
    case True
    then show ?thesis by simp
  next
    case False
    from a have w: "t \<in> waiting s" and r: "run s (Write F1 # Write F2 # evs) = Some s'"
      and p: "published evs = []" by simp_all
    have "published ([] :: event list) = []" by simp
    from woken_reads_latest(1) [OF w r p False this] show ?thesis by simp
  qed
next
  have "notified StreamingOutput_init = {} \<or> frame StreamingOutput_init \<in> Some ` {}"
    by (simp add: StreamingOutput_init_def)
  from received_were_published [OF this, of u evs']
  show "set (received u StreamingOutput_init evs') \<subseteq> Some ` set (published evs')"
    by simp
qed

text \<open>
  Three threads wait and two frames are published in a row: each of the three is woken,
  the one that resumes last still reads \<open>F2\<close>, and none reads \<open>F1\<close>.
\<close>

theorem latest_frame_wins_witness:
  "step \<lparr>frame = Some ''F2'', waiting = {}, notified = {0}\<rparr> (Wait_end 0)
     = Some \<lparr>frame = Some ''F2'', waiting = {}, notified = {}\<rparr>
   \<and> received 0 StreamingOutput_init
        [Wait_begin 0, Wait_begin 1, Wait_begin 2, Write ''F1'', Write ''F2'',
         Wait_end 1, Wait_end 2, Wait_end 0, Wait_begin 1] = [Some ''F2'']
   \<and> received 2 \<lparr>frame = None, waiting = {0, 1, 2}, notified = {}\<rparr>
        [Write ''F1'', Write ''F2'', Wait_end 1, Wait_end 0] = []
   \<and> step \<lparr>frame = Some ''F2'', waiting = {}, notified = {2}\<rparr> (Wait_end 2)
       = Some \<lparr>frame = Some ''F2'', waiting = {}, notified = {}\<rparr>
   \<and> received 0 \<lparr>frame = None, waiting = {0, 1, 2}, notified = {}\<rparr>
        [Write ''F1'', Write ''F2'', Wait_end 1, Wait_end 0] = [Some ''F2'']
   \<and> set (received 0 StreamingOutput_init
        [Wait_begin 0, Write ''F1'', Write ''F2'', Wait_end 0, Wait_begin 0, Write ''F3'', Wait_end 0])
      \<subseteq> {Some ''F1'', Some ''F2'', Some ''F3''}"
proof -
  let ?s1 = "\<lparr>frame = None, waiting = {0 :: nat}, notified = {}\<rparr>"
  let ?s = "\<lparr>frame = None, waiting = {0, 1, 2 :: nat}, notified = {}\<rparr>"
  let ?a = "\<lparr>frame = Some ''F2'', waiting = {}, notified = {0 :: nat}\<rparr>"
  let ?b = "\<lparr>frame = Some ''F2'', waiting = {}, notified = {2 :: nat}\<rparr>"
  have h1: "step StreamingOutput_init (Wait_begin 0) = Some ?s1
      \<and> run ?s1 [Wait_begin 1, Wait_begin 2] = Some ?s
      \<and> published [Wait_begin 1, Wait_begin 2] = []
      \<and> run ?s (Write ''F1'' # Write ''F2'' # [Wait_end 1, Wait_end 2]) = Some ?a
      \<and> published [Wait_end 1, Wait_end 2] = []
      \<and> Wait_end 0 \<notin> set [Wait_end 1, Wait_end 2]
      \<and> published [Wait_begin 1] = []"
    by (auto simp add: output_write_def StreamingOutput_init_def)
  have h2: "2 \<in> waiting ?s \<and> published [Wait_end 1, Wait_end 0] = []
      \<and> run ?s (Write ''F1'' # Write ''F2'' # [Wait_end 1, Wait_end 0]) = Some ?b"
    by (auto simp add: output_write_def)
  have h0: "0 \<in> waiting ?s \<and> published [Wait_end 1, Wait_end 0] = []
      \<and> run ?s (Write ''F1'' # Write ''F2'' # [Wait_end 1, Wait_end 0]) = Some ?b"
    by (auto simp add: output_write_def)
  from latest_frame_wins [THEN conjunct1, THEN mp, OF h1]
  have a: "step ?a (Wait_end 0) = Some \<lparr>frame = Some ''F2'', waiting = {}, notified = {}\<rparr>
    \<and> received 0 StreamingOutput_init
        [Wait_begin 0, Wait_begin 1, Wait_begin 2, Write ''F1'', Write ''F2'',
         Wait_end 1, Wait_end 2, Wait_end 0, Wait_begin 1] = [Some ''F2'']"
    by simp
  from latest_frame_wins [THEN conjunct2, THEN conjunct1, THEN mp, OF h2]
  have b: "received 2 ?s [Write ''F1'', Write ''F2'', Wait_end 1, Wait_end 0] = []
    \<and> step ?b (Wait_end 2) = Some \<lparr>frame = Some ''F2'', waiting = {}, notified = {}\<rparr>"
    by simp
  from latest_frame_wins [THEN conjunct2, THEN conjunct1, THEN mp, OF h0]
  have c: "received 0 ?s [Write ''F1'', Write ''F2'', Wait_end 1, Wait_end 0] = [Some ''F2'']"
    by simp
  from latest_frame_wins [THEN conjunct2, THEN conjunct2, of 0
      "[Wait_begin 0, Write ''F1'', Write ''F2'', Wait_end 0, Wait_begin 0, Write ''F3'', Wait_end 0]"]
  have d: "set (received 0 StreamingOutput_init
        [Wait_begin 0, Write ''F1'', Write ''F2'', Wait_end 0, Wait_begin 0, Write ''F3'', Wait_end 0])
      \<subseteq> {Some ''F1'', Some ''F2'', Some ''F3''}"
    by simp
  from a b c d show ?thesis by simp
qed

text \<open>
  C4 (as amended). A streaming thread always enters the wait before it reads
  \<^verbatim>\<open>output.frame\<close>, whatever frame is held when it attaches. While nothing is published it
  has read nothing and cannot resume; after the next publish it resumes and reads that
  buffer.
\<close>

theorem reader_blocks_until_next_publish:
  "step s0 (Wait_begin t) = Some s1 \<and> run s1 evs = Some s2 \<and> published evs = [] \<longrightarrow>
   received t s0 (Wait_begin t # evs) = []
   \<and> step s2 (Wait_end t) = None
   \<and> received t s0 (Wait_begin t # evs @ [Write b, Wait_end t]) = [Some b]"
proof (intro impI, elim conjE)
  assume b: "step s0 (Wait_begin t) = Some s1" and r: "run s1 evs = Some s2"
    and p: "published evs = []"
  from b have w1: "t \<in> waiting s1" and n1: "t \<notin> notified s1"
    by (auto split: if_splits)
  from idle_receives_nothing [OF n1 p] have none: "received t s1 evs = []" .
  from blocked_stays [OF w1 n1 p r] have w2: "t \<in> waiting s2" and n2: "t \<notin> notified s2"
    by simp_all
  from n2 have blocked: "step s2 (Wait_end t) = None" by simp
  from w2 have "received t s2 [Write b, Wait_end t] = [Some b]"
    by (simp add: output_write_def)
  with received_append [OF r, of t "[Write b, Wait_end t]"] none
  have "received t s1 (evs @ [Write b, Wait_end t]) = [Some b]" by simp
  with b none blocked
  show "received t s0 (Wait_begin t # evs) = []
   \<and> step s2 (Wait_end t) = None
   \<and> received t s0 (Wait_begin t # evs @ [Write b, Wait_end t]) = [Some b]"
    by simp
qed

text \<open>A thread attaches while \<open>F0\<close> is held, waits, and reads \<open>F1\<close> once it is published.\<close>

theorem reader_blocks_until_next_publish_witness:
  "received 0 (output_write ''F0'' StreamingOutput_init) [Wait_begin 0, Wait_begin 1] = []
   \<and> step \<lparr>frame = Some ''F0'', waiting = {0, 1}, notified = {}\<rparr> (Wait_end 0) = None
   \<and> received 0 (output_write ''F0'' StreamingOutput_init)
        [Wait_begin 0, Wait_begin 1, Write ''F1'', Wait_end 0] = [Some ''F1'']"
proof -
  let ?s0 = "output_write ''F0'' StreamingOutput_init"
  let ?s1 = "\<lparr>frame = Some ''F0'', waiting = {0 :: nat}, notified = {}\<rparr>"
  let ?s2 = "\<lparr>frame = Some ''F0'', waiting = {0, 1 :: nat}, notified = {}\<rparr>"
  have h: "step ?s0 (Wait_begin 0) = Some ?s1 \<and> run ?s1 [Wait_begin 1] = Some ?s2
      \<and> published [Wait_begin 1] = []"
    by (auto simp add: output_write_def StreamingOutput_init_def)
  from reader_blocks_until_next_publish [THEN mp, OF h, of "''F1''"] show ?thesis
    by simp
qed

text \<open>
  C4 as stated fails: a thread that attaches after \<open>F0\<close> was published is blocked in the
  wait, has read nothing, and its handler has sent the response headers and no part.
\<close>

theorem attach_after_publish_blocks:
  "run StreamingOutput_init [Write ''F0'', Wait_begin 0]
     = Some \<lparr>frame = Some ''F0'', waiting = {0}, notified = {}\<rparr>
   \<and> step \<lparr>frame = Some ''F0'', waiting = {0}, notified = {}\<rparr> (Wait_end 0) = None
   \<and> received 0 StreamingOutput_init [Write ''F0'', Wait_begin 0] = []
   \<and> do_GET sample_globals
        (sample_env\<lparr>waits := received 0 StreamingOutput_init [Write ''F0'', Wait_begin 0]\<rparr>)
        (sample_handler ''/stream.mjpg'') =
       (Waiting,
        (sample_handler ''/stream.mjpg'')
          \<lparr>trace :=
             [Send_response 200,
              Send_header ''Age'' ''0'',
              Send_header ''Cache-Control'' ''no-cache, private'',
              Send_header ''Pragma'' ''no-cache'',
              Send_header ''Content-Type'' ''multipart/x-mixed-replace; boundary=FRAME'',
              End_headers],
           writes_left := 9\<rparr>)"
  by (simp add: output_write_def StreamingOutput_init_def do_GET_def api_defs try_except_def
      sample_handler_def str_nat_0)

end
